theory Spec2Isabelle
  imports Main
begin

section \<open>Data model of the chat client (src/app.js, class ChatApp)\<close>

text \<open>
  The model covers the call-signalling part of \<^verbatim>\<open>ChatApp\<close>: the fields set in the
  constructor, the inbound message router \<^verbatim>\<open>handleMessage\<close> and the call lifecycle
  (\<^verbatim>\<open>initiateCall\<close>, \<^verbatim>\<open>showIncomingCall\<close>, \<^verbatim>\<open>answerCall\<close>, \<^verbatim>\<open>handleCallAnswer\<close>,
  \<^verbatim>\<open>startLocalStream\<close>, \<^verbatim>\<open>createPeerConnection\<close>, \<^verbatim>\<open>toggleMute\<close>, \<^verbatim>\<open>endCall\<close>).

  Modelling decisions:
  \<^item> \<^verbatim>\<open>null\<close> and \<^verbatim>\<open>undefined\<close> are both \<open>None\<close>.
  \<^item> A handler definition gives the effect of the handler when it runs from its first
    line to its last with no other handler executed while it is suspended at an
    \<^verbatim>\<open>await\<close>. The program itself does allow other events in between (\<^verbatim>\<open>initiateCall\<close>
    does not even await \<^verbatim>\<open>startLocalStream\<close>); the section on overlapping handlers cuts
    \<^verbatim>\<open>answerCall\<close> and \<^verbatim>\<open>initiateCall\<close> at their first suspension to describe such an
    execution.
  \<^item> A thrown exception or a rejected promise is the \<open>Some e\<close> component of the result;
    the state component holds the assignments made before the throw.
  \<^item> The \<^verbatim>\<open>RTCPeerConnection\<close> is a recorder: it stores the descriptions and the ICE
    candidates handed to it, in call order; its methods do not fail. Only
    \<^verbatim>\<open>getUserMedia\<close> may reject, which is an input of the transition.
  \<^item> Objects created at run time (media streams, peer connections) carry an identifier
    drawn from the counter \<open>fresh\<close>; \<open>sent\<close> records the messages passed to
    \<^verbatim>\<open>ws.send\<close>, each with the value \<^verbatim>\<open>this.isCaller\<close> has at that call,
    \<open>released\<close> the \<^verbatim>\<open>track.stop()\<close> and \<^verbatim>\<open>close()\<close> calls, and
    \<open>alerts\<close> the \<^verbatim>\<open>alert\<close> boxes.
  \<^item> Inbound messages are well formed for their \<^verbatim>\<open>type\<close> tag (a candidate can be
    wrapped in \<^verbatim>\<open>RTCIceCandidate\<close>, a roster is a list); descriptions and candidates
    are opaque values.
  \<^item> Of the DOM, the visibility of the call overlay and of the incoming-call modal, the
    call-info line and the \<^verbatim>\<open>srcObject\<close> of the two video elements are modelled; chat
    rendering and button captions are not.
\<close>

datatype call_type = Audio | Video

datatype sdp = RemoteSdp nat | LocalOfferSdp | LocalAnswerSdp

datatype candidate = Candidate nat

record call_offer =
  offer_from_user :: "string option"
  offer_to_user :: "string option"
  offer_call_type :: call_type
  offer_sdp :: sdp

record call_answer =
  answer_from_user :: "string option"
  answer_to_user :: "string option"
  answer_accepted :: bool
  answer_sdp :: "sdp option"

datatype message =
    ChatMessage "string option" string
  | Join "string list"
  | Leave "string list"
  | CallOffer call_offer
  | CallAnswer call_answer
  | IceCandidate "string option" "string option" candidate
  | UnknownType string

datatype error = TypeError | GetUserMediaRejected | InvalidDescription

datatype websocket = WebSocket string string

record media_stream =
  stream_id :: nat
  has_video :: bool

record peer_connection =
  pc_id :: nat
  tracks :: "media_stream list"
  localDescription :: "sdp option"
  remoteDescription :: "sdp option"
  addedIceCandidates :: "candidate list"

datatype release = TracksStopped nat | ConnectionClosed nat

record app =
  ws :: "websocket option"
  currentRoom :: "string option"
  currentUsername :: "string option"
  isConnected :: bool
  peerConnection :: "peer_connection option"
  localStream :: "media_stream option"
  remoteStream :: "media_stream option"
  currentPeer :: "string option"
  isCaller :: bool
  pendingRemoteCandidates :: "candidate list"
  remoteDescriptionSet :: bool
  onlineUsers :: "string list option"
  pendingOffer :: "call_offer option"
  callOverlay_hidden :: bool
  incomingCallModal_hidden :: bool
  callInfo :: "(string option \<times> call_type) option"
  localVideo_srcObject :: "media_stream option"
  remoteVideo_srcObject :: "media_stream option"
  disabledAudio :: "nat list"
  fresh :: nat
  sent :: "(bool \<times> message) list"
  released :: "release list"
  alerts :: "string list"

type_synonym outcome = "error option \<times> app"

text \<open>Sequencing of two parts of a handler: a throw in the first part skips the second.\<close>

definition andThen :: "outcome \<Rightarrow> (app \<Rightarrow> outcome) \<Rightarrow> outcome" where
  "andThen r f = (case r of (None, s) \<Rightarrow> f s | (Some e, s) \<Rightarrow> (Some e, s))"

text \<open>JavaScript truthiness of a value that is a string, \<^verbatim>\<open>null\<close> or \<^verbatim>\<open>undefined\<close>.\<close>

definition truthy :: "string option \<Rightarrow> bool" where
  "truthy v = (case v of None \<Rightarrow> False | Some str \<Rightarrow> str \<noteq> [])"

section \<open>Operations\<close>

text \<open>
  The constructor. The initial visibility of the call overlay and of the incoming-call
  modal comes from the page markup, which is not part of the script: both are parameters.
\<close>

definition ChatApp :: "bool \<Rightarrow> bool \<Rightarrow> app" where
  "ChatApp overlayHidden modalHidden =
     \<lparr> ws = None, currentRoom = None, currentUsername = None, isConnected = False,
       peerConnection = None, localStream = None, remoteStream = None,
       currentPeer = None, isCaller = False,
       pendingRemoteCandidates = [], remoteDescriptionSet = False,
       onlineUsers = None, pendingOffer = None,
       callOverlay_hidden = overlayHidden, incomingCallModal_hidden = modalHidden,
       callInfo = None, localVideo_srcObject = None, remoteVideo_srcObject = None,
       disabledAudio = [], fresh = 0, sent = [], released = [], alerts = [] \<rparr>"

text \<open>
  \<^verbatim>\<open>this.ws.send(JSON.stringify(m))\<close>: a \<^verbatim>\<open>TypeError\<close> when \<^verbatim>\<open>this.ws\<close> is null. The
  trace entry pairs the message with the role flag at the time of the call.
\<close>

definition send :: "message \<Rightarrow> app \<Rightarrow> outcome" where
  "send m s = (case ws s of
       None \<Rightarrow> (Some TypeError, s)
     | Some sock \<Rightarrow> (None, s\<lparr>sent := sent s @ [(isCaller s, m)]\<rparr>))"

text \<open>
  \<^verbatim>\<open>joinRoom\<close> with \<^verbatim>\<open>connectWebSocket\<close> and \<^verbatim>\<open>switchToChat\<close>; the two arguments are the
  trimmed input values, \<open>opened\<close> says whether the socket opens before the timeout.
\<close>

definition joinRoom :: "string \<Rightarrow> string \<Rightarrow> bool \<Rightarrow> app \<Rightarrow> app" where
  "joinRoom roomName username opened s =
     (if roomName = [] \<or> username = []
      then s\<lparr>alerts := alerts s @ [''Please enter both room name and username'']\<rparr>
      else let s1 = s\<lparr>currentRoom := Some roomName, currentUsername := Some username,
                       ws := Some (WebSocket roomName username)\<rparr>
           in if opened then s1\<lparr>isConnected := True\<rparr>
              else s1\<lparr>alerts := alerts s1 @ [''Failed to connect.'']\<rparr>)"

definition updateUsersList :: "string list \<Rightarrow> app \<Rightarrow> app" where
  "updateUsersList users s = s\<lparr>onlineUsers := Some users\<rparr>"

definition sendMessage :: "string \<Rightarrow> app \<Rightarrow> outcome" where
  "sendMessage content s =
     (if content = [] then (None, s) else send (ChatMessage None content) s)"

definition createPeerConnection :: "app \<Rightarrow> app" where
  "createPeerConnection s =
     s\<lparr>peerConnection := Some \<lparr> pc_id = fresh s, tracks = [], localDescription = None,
                                remoteDescription = None, addedIceCandidates = [] \<rparr>,
       fresh := Suc (fresh s)\<rparr>"

text \<open>The \<^verbatim>\<open>onicecandidate\<close> callback installed by \<^verbatim>\<open>createPeerConnection\<close>.\<close>

definition onicecandidate :: "candidate option \<Rightarrow> app \<Rightarrow> outcome" where
  "onicecandidate e_candidate s = (case e_candidate of
       None \<Rightarrow> (None, s)
     | Some c \<Rightarrow> send (IceCandidate (currentUsername s) (currentPeer s) c) s)"

text \<open>The \<^verbatim>\<open>ontrack\<close> callback installed by \<^verbatim>\<open>createPeerConnection\<close>.\<close>

definition ontrack :: "media_stream \<Rightarrow> app \<Rightarrow> app" where
  "ontrack stream s = s\<lparr>remoteVideo_srcObject := Some stream\<rparr>"

definition addIceCandidate :: "candidate \<Rightarrow> peer_connection \<Rightarrow> peer_connection" where
  "addIceCandidate c pc = pc\<lparr>addedIceCandidates := addedIceCandidates pc @ [c]\<rparr>"

text \<open>\<^verbatim>\<open>for (const c of this.pendingRemoteCandidates) await pc.addIceCandidate(c)\<close>\<close>

fun addAll :: "candidate list \<Rightarrow> peer_connection \<Rightarrow> peer_connection" where
  "addAll [] pc = pc"
| "addAll (c # cs) pc = addAll cs (addIceCandidate c pc)"

text \<open>
  \<^verbatim>\<open>startLocalStream(type)\<close>; \<open>granted\<close> says whether \<^verbatim>\<open>getUserMedia\<close> resolves. When it
  rejects, the assignment to \<^verbatim>\<open>this.localStream\<close> does not happen.
\<close>

definition startLocalStream :: "call_type \<Rightarrow> bool \<Rightarrow> app \<Rightarrow> outcome" where
  "startLocalStream type granted s =
     (if \<not> granted then (Some GetUserMediaRejected, s)
      else let stream = \<lparr> stream_id = fresh s, has_video = (type = Video) \<rparr>;
               s1 = s\<lparr>localStream := Some stream, localVideo_srcObject := Some stream,
                      fresh := Suc (fresh s)\<rparr>;
               s2 = createPeerConnection s1
           in case peerConnection s2 of
                None \<Rightarrow> (Some TypeError, s2)
              | Some pc \<Rightarrow>
                  let pc1 = pc\<lparr>tracks := tracks pc @ [stream]\<rparr>;
                      s3 = s2\<lparr>peerConnection := Some pc1\<rparr>
                  in if isCaller s3
                     then let offer = LocalOfferSdp;
                              s4 = s3\<lparr>peerConnection := Some (pc1\<lparr>localDescription := Some offer\<rparr>)\<rparr>
                          in send (CallOffer \<lparr> offer_from_user = currentUsername s4,
                                               offer_to_user = currentPeer s4,
                                               offer_call_type = type,
                                               offer_sdp = offer \<rparr>) s4
                     else (None, s3))"

definition initiateCall :: "call_type \<Rightarrow> bool \<Rightarrow> app \<Rightarrow> outcome" where
  "initiateCall type granted s = (case onlineUsers s of
       None \<Rightarrow> (Some TypeError, s)
     | Some users \<Rightarrow>
         let s1 = s\<lparr>currentPeer := find (\<lambda>u. Some u \<noteq> currentUsername s) users\<rparr>
         in if \<not> truthy (currentPeer s1)
            then (None, s1\<lparr>alerts := alerts s1 @ [''No one to call.'']\<rparr>)
            else startLocalStream type granted
                   (s1\<lparr>isCaller := True, callOverlay_hidden := False\<rparr>))"

definition showIncomingCall :: "call_offer \<Rightarrow> app \<Rightarrow> app" where
  "showIncomingCall offer s =
     s\<lparr>pendingOffer := Some offer,
       callInfo := Some (offer_from_user offer, offer_call_type offer),
       incomingCallModal_hidden := False\<rparr>"

definition answerCall :: "bool \<Rightarrow> bool \<Rightarrow> app \<Rightarrow> outcome" where
  "answerCall accepted granted s =
     (let s1 = s\<lparr>incomingCallModal_hidden := True, pendingOffer := None\<rparr>
      in case pendingOffer s of
           None \<Rightarrow> (None, s1)
         | Some offer \<Rightarrow>
             if \<not> accepted
             then send (CallAnswer \<lparr> answer_from_user = currentUsername s1,
                                    answer_to_user = offer_from_user offer,
                                    answer_accepted = False, answer_sdp = None \<rparr>) s1
             else andThen
                    (startLocalStream (offer_call_type offer) granted
                       (s1\<lparr>currentPeer := offer_from_user offer, isCaller := False,
                           callOverlay_hidden := False\<rparr>))
                    (\<lambda>s2. case peerConnection s2 of
                        None \<Rightarrow> (Some TypeError, s2)
                      | Some pc \<Rightarrow>
                          let pc1 = pc\<lparr>remoteDescription := Some (offer_sdp offer)\<rparr>;
                              s3 = s2\<lparr>peerConnection := Some pc1, remoteDescriptionSet := True\<rparr>;
                              pc2 = addAll (pendingRemoteCandidates s3) pc1;
                              s4 = s3\<lparr>peerConnection := Some pc2, pendingRemoteCandidates := []\<rparr>;
                              answer = LocalAnswerSdp;
                              s5 = s4\<lparr>peerConnection := Some (pc2\<lparr>localDescription := Some answer\<rparr>)\<rparr>
                          in send (CallAnswer \<lparr> answer_from_user = currentUsername s5,
                                                answer_to_user = offer_from_user offer,
                                                answer_accepted = True,
                                                answer_sdp = Some answer \<rparr>) s5))"

definition endCall :: "app \<Rightarrow> app" where
  "endCall s =
     s\<lparr>callOverlay_hidden := True,
       released := released s
         @ (case localStream s of None \<Rightarrow> [] | Some st \<Rightarrow> [TracksStopped (stream_id st)])
         @ (case remoteStream s of None \<Rightarrow> [] | Some st \<Rightarrow> [TracksStopped (stream_id st)])
         @ (case peerConnection s of None \<Rightarrow> [] | Some pc \<Rightarrow> [ConnectionClosed (pc_id pc)]),
       localVideo_srcObject := None,
       remoteVideo_srcObject := None,
       peerConnection := None,
       localStream := None,
       remoteStream := None,
       isCaller := False,
       currentPeer := None\<rparr>"

text \<open>
  \<^verbatim>\<open>handleCallAnswer(answer)\<close>. A missing \<^verbatim>\<open>sdp\<close> in an accepted answer makes the
  description invalid.
\<close>

definition handleCallAnswer :: "call_answer \<Rightarrow> app \<Rightarrow> outcome" where
  "handleCallAnswer answer s =
     (if \<not> answer_accepted answer then (None, endCall s)
      else case peerConnection s of
             None \<Rightarrow> (Some TypeError, s)
           | Some pc \<Rightarrow> (case answer_sdp answer of
                 None \<Rightarrow> (Some InvalidDescription, s)
               | Some d \<Rightarrow>
                   let pc1 = pc\<lparr>remoteDescription := Some d\<rparr>;
                       s1 = s\<lparr>peerConnection := Some pc1, remoteDescriptionSet := True\<rparr>;
                       pc2 = addAll (pendingRemoteCandidates s1) pc1
                   in (None, s1\<lparr>peerConnection := Some pc2, pendingRemoteCandidates := []\<rparr>)))"

definition toggleMute :: "app \<Rightarrow> app" where
  "toggleMute s = (case localStream s of
       None \<Rightarrow> s
     | Some st \<Rightarrow>
         if stream_id st \<in> set (disabledAudio s)
         then s\<lparr>disabledAudio := removeAll (stream_id st) (disabledAudio s)\<rparr>
         else s\<lparr>disabledAudio := stream_id st # disabledAudio s\<rparr>)"

definition handleMessage :: "message \<Rightarrow> app \<Rightarrow> outcome" where
  "handleMessage data s = (case data of
       ChatMessage user content \<Rightarrow> (None, s)
     | Join online \<Rightarrow> (None, updateUsersList online s)
     | Leave online \<Rightarrow> (None, updateUsersList online s)
     | CallOffer offer \<Rightarrow>
         if offer_to_user offer = currentUsername s
         then (None, showIncomingCall offer s) else (None, s)
     | CallAnswer answer \<Rightarrow> handleCallAnswer answer s
     | IceCandidate from_user to_user cand \<Rightarrow>
         if to_user = currentUsername s
         then (case peerConnection s of
                 None \<Rightarrow> (None, s)
               | Some pc \<Rightarrow>
                   if remoteDescriptionSet s
                   then (None, s\<lparr>peerConnection := Some (addIceCandidate cand pc)\<rparr>)
                   else (None, s\<lparr>pendingRemoteCandidates := pendingRemoteCandidates s @ [cand]\<rparr>))
         else (None, s)
     | UnknownType t \<Rightarrow> (None, s))"

section \<open>Events and runs\<close>

text \<open>
  What can happen to the application: the user acts on the page, the socket delivers a
  message or closes, the peer connection calls back. A socket or peer-connection event
  needs the object that raises it.

  \<open>step\<close> is the effect of one event whose handler runs to completion before any other
  event is handled, and \<open>run\<close> a sequence of such non-overlapping handler executions.
  They describe those executions of the program only: executions in which an event is
  handled while an earlier handler is suspended are not runs.
\<close>

datatype event =
    SubmitJoin string string bool
  | SubmitMessage string
  | Receive message
  | SocketClosed
  | ClickCall call_type bool
  | ClickAnswer bool bool
  | ClickMute
  | ClickEndCall
  | LocalCandidate "candidate option"
  | RemoteTrack media_stream

definition step :: "event \<Rightarrow> app \<Rightarrow> outcome" where
  "step e s = (case e of
       SubmitJoin roomName username opened \<Rightarrow> (None, joinRoom roomName username opened s)
     | SubmitMessage content \<Rightarrow> sendMessage content s
     | Receive data \<Rightarrow> (if ws s = None then (None, s) else handleMessage data s)
     | SocketClosed \<Rightarrow> (if ws s = None then (None, s) else (None, s\<lparr>isConnected := False\<rparr>))
     | ClickCall type granted \<Rightarrow> initiateCall type granted s
     | ClickAnswer accepted granted \<Rightarrow> answerCall accepted granted s
     | ClickMute \<Rightarrow> (None, toggleMute s)
     | ClickEndCall \<Rightarrow> (None, endCall s)
     | LocalCandidate c \<Rightarrow> (if peerConnection s = None then (None, s) else onicecandidate c s)
     | RemoteTrack stream \<Rightarrow> (if peerConnection s = None then (None, s) else (None, ontrack stream s)))"

text \<open>
  Non-overlapping handler executions, one after the other. A failed handler leaves its
  partial state behind and the application goes on.
\<close>

fun run :: "event list \<Rightarrow> app \<Rightarrow> app" where
  "run [] s = s"
| "run (e # es) s = run es (snd (step e s))"

text \<open>Delivering a list of inbound messages, one handler after the other.\<close>

fun deliver :: "message list \<Rightarrow> app \<Rightarrow> app" where
  "deliver [] s = s"
| "deliver (m # ms) s = deliver ms (snd (handleMessage m s))"

fun deliver_errors :: "message list \<Rightarrow> app \<Rightarrow> error list" where
  "deliver_errors [] s = []"
| "deliver_errors (m # ms) s =
     (case fst (handleMessage m s) of None \<Rightarrow> [] | Some e \<Rightarrow> [e])
       @ deliver_errors ms (snd (handleMessage m s))"

section \<open>Overlapping handlers\<close>

text \<open>
  \<^verbatim>\<open>answerCall(true)\<close> up to its first suspension: lines 326 to 338 and the call of
  \<^verbatim>\<open>startLocalStream\<close>, which requests the media and suspends at line 281 without an
  assignment. The second component is the local variable \<^verbatim>\<open>offer\<close> the suspended
  activation holds; it is \<open>None\<close> when the handler returned at line 329.
\<close>

definition answerCall_begin :: "app \<Rightarrow> app \<times> call_offer option" where
  "answerCall_begin s =
     (let s1 = s\<lparr>incomingCallModal_hidden := True, pendingOffer := None\<rparr>
      in case pendingOffer s of
           None \<Rightarrow> (s1, None)
         | Some offer \<Rightarrow>
             (s1\<lparr>currentPeer := offer_from_user offer, isCaller := False,
                 callOverlay_hidden := False\<rparr>, Some offer))"

text \<open>
  The rest of that activation, from the outcome of \<^verbatim>\<open>getUserMedia\<close> (line 281) to the
  \<^verbatim>\<open>send\<close> of line 348, on the state it finds when it is resumed.
\<close>

definition answerCall_resume :: "call_offer \<Rightarrow> bool \<Rightarrow> app \<Rightarrow> outcome" where
  "answerCall_resume offer granted s =
     andThen (startLocalStream (offer_call_type offer) granted s)
       (\<lambda>s2. case peerConnection s2 of
           None \<Rightarrow> (Some TypeError, s2)
         | Some pc \<Rightarrow>
             let pc1 = pc\<lparr>remoteDescription := Some (offer_sdp offer)\<rparr>;
                 s3 = s2\<lparr>peerConnection := Some pc1, remoteDescriptionSet := True\<rparr>;
                 pc2 = addAll (pendingRemoteCandidates s3) pc1;
                 s4 = s3\<lparr>peerConnection := Some pc2, pendingRemoteCandidates := []\<rparr>;
                 answer = LocalAnswerSdp;
                 s5 = s4\<lparr>peerConnection := Some (pc2\<lparr>localDescription := Some answer\<rparr>)\<rparr>
             in send (CallAnswer \<lparr> answer_from_user = currentUsername s5,
                                   answer_to_user = offer_from_user offer,
                                   answer_accepted = True,
                                   answer_sdp = Some answer \<rparr>) s5)"

text \<open>
  \<^verbatim>\<open>initiateCall\<close> up to the suspension of the \<^verbatim>\<open>startLocalStream\<close> it calls: lines 309
  to 315 and the media request of line 281. The flag says whether an activation of
  \<^verbatim>\<open>startLocalStream\<close> is left suspended.
\<close>

definition initiateCall_begin :: "app \<Rightarrow> outcome \<times> bool" where
  "initiateCall_begin s = (case onlineUsers s of
       None \<Rightarrow> ((Some TypeError, s), False)
     | Some users \<Rightarrow>
         let s1 = s\<lparr>currentPeer := find (\<lambda>u. Some u \<noteq> currentUsername s) users\<rparr>
         in if \<not> truthy (currentPeer s1)
            then ((None, s1\<lparr>alerts := alerts s1 @ [''No one to call.'']\<rparr>), False)
            else ((None, s1\<lparr>isCaller := True, callOverlay_hidden := False\<rparr>), True))"

section \<open>Notions used by the properties\<close>

text \<open>The fields that make up the running call session.\<close>

definition session :: "app \<Rightarrow> peer_connection option \<times> string option \<times> bool \<times> media_stream option" where
  "session s = (peerConnection s, currentPeer s, isCaller s, localStream s)"

text \<open>The state \<^verbatim>\<open>endCall\<close> leaves behind: no session, nothing shown.\<close>

definition idle :: "app \<Rightarrow> bool" where
  "idle s = (peerConnection s = None \<and> localStream s = None \<and> remoteStream s = None
     \<and> \<not> isCaller s \<and> currentPeer s = None \<and> callOverlay_hidden s
     \<and> localVideo_srcObject s = None \<and> remoteVideo_srcObject s = None)"

text \<open>The release calls \<^verbatim>\<open>endCall\<close> owes for the handles the state still holds.\<close>

definition live_handles :: "app \<Rightarrow> release list" where
  "live_handles s =
     (case localStream s of None \<Rightarrow> [] | Some st \<Rightarrow> [TracksStopped (stream_id st)])
     @ (case remoteStream s of None \<Rightarrow> [] | Some st \<Rightarrow> [TracksStopped (stream_id st)])
     @ (case peerConnection s of None \<Rightarrow> [] | Some pc \<Rightarrow> [ConnectionClosed (pc_id pc)])"

fun is_ice_candidate :: "message \<Rightarrow> bool" where
  "is_ice_candidate (IceCandidate f t c) = True"
| "is_ice_candidate m = False"






section \<open>Scenarios\<close>

definition carol_offer :: call_offer where
  "carol_offer = \<lparr> offer_from_user = Some ''carol'', offer_to_user = Some ''alice'',
                    offer_call_type = Video, offer_sdp = RemoteSdp 7 \<rparr>"

definition bob_accepts :: call_answer where
  "bob_accepts = \<lparr> answer_from_user = Some ''bob'', answer_to_user = Some ''alice'',
                    answer_accepted = True, answer_sdp = Some (RemoteSdp 3) \<rparr>"

definition mallory_declines :: call_answer where
  "mallory_declines = \<lparr> answer_from_user = Some ''mallory'', answer_to_user = Some ''alice'',
                         answer_accepted = False, answer_sdp = None \<rparr>"

text \<open>Alice has joined the room and the roster has arrived.\<close>

definition alice_joined :: app where
  "alice_joined = run [SubmitJoin ''lobby'' ''alice'' True,
                       Receive (Join [''alice'', ''bob'', ''carol''])] (ChatApp True True)"

text \<open>Alice has placed an audio call: she is the caller, the peer is bob.\<close>

definition alice_calling :: app where
  "alice_calling = run [ClickCall Audio True] alice_joined"

text \<open>
  While her call to bob waits for its answer, one candidate from bob has arrived and
  carol has sent an offer.
\<close>

definition alice_busy :: app where
  "alice_busy = run [Receive (IceCandidate (Some ''bob'') (Some ''alice'') (Candidate 1)),
                     Receive (CallOffer carol_offer)] alice_calling"

text \<open>Bob has accepted Alice's call: the remote description is applied.\<close>

definition alice_answered :: app where
  "alice_answered = run [Receive (CallAnswer bob_accepts)] alice_calling"

text \<open>Alice is idle and carol's offer has arrived.\<close>

definition alice_ringing :: app where
  "alice_ringing = run [Receive (CallOffer carol_offer)] alice_joined"


text \<open>
  A full run from construction: Alice joins, calls bob (caller), queues one candidate,
  receives carol's offer and accepts it (callee).
\<close>

definition switch_events :: "event list" where
  "switch_events = [SubmitJoin ''lobby'' ''alice'' True,
                    Receive (Join [''alice'', ''bob'', ''carol'']),
                    ClickCall Audio True,
                    Receive (IceCandidate (Some ''bob'') (Some ''alice'') (Candidate 1)),
                    Receive (CallOffer carol_offer),
                    ClickAnswer True True]"

definition alice_offer_to_bob :: message where
  "alice_offer_to_bob = CallOffer \<lparr> offer_from_user = Some ''alice'', offer_to_user = Some ''bob'',
                                    offer_call_type = Audio, offer_sdp = LocalOfferSdp \<rparr>"

definition alice_accepts_carol :: message where
  "alice_accepts_carol = CallAnswer \<lparr> answer_from_user = Some ''alice'',
                                      answer_to_user = Some ''carol'', answer_accepted = True,
                                      answer_sdp = Some LocalAnswerSdp \<rparr>"

definition alice_declines_carol :: message where
  "alice_declines_carol = CallAnswer \<lparr> answer_from_user = Some ''alice'',
                                       answer_to_user = Some ''carol'', answer_accepted = False,
                                       answer_sdp = None \<rparr>"

text \<open>
  An overlapping execution. Carol's offer is pending; Alice clicks accept and the handler
  suspends waiting for the media.
\<close>

definition alice_accept_suspended :: app where
  "alice_accept_suspended = fst (answerCall_begin alice_ringing)"

text \<open>While it is suspended she clicks the call button; that handler suspends as well.\<close>

definition alice_overlap :: app where
  "alice_overlap = snd (fst (initiateCall_begin alice_accept_suspended))"

definition alice_video_offer_to_bob :: message where
  "alice_video_offer_to_bob =
     CallOffer \<lparr> offer_from_user = Some ''alice'', offer_to_user = Some ''bob'',
                 offer_call_type = Video, offer_sdp = LocalOfferSdp \<rparr>"

section \<open>Auxiliary facts\<close>

lemmas op_defs = send_def joinRoom_def updateUsersList_def sendMessage_def
  createPeerConnection_def onicecandidate_def ontrack_def addIceCandidate_def
  startLocalStream_def initiateCall_def showIncomingCall_def answerCall_def endCall_def
  handleCallAnswer_def toggleMute_def handleMessage_def step_def andThen_def truthy_def
  Let_def

lemmas scenario_defs = ChatApp_def carol_offer_def bob_accepts_def mallory_declines_def
  alice_joined_def alice_calling_def alice_busy_def alice_answered_def alice_ringing_def
  switch_events_def alice_offer_to_bob_def alice_accepts_carol_def alice_declines_carol_def
  alice_accept_suspended_def alice_overlap_def alice_video_offer_to_bob_def

text \<open>The flush loop hands the queue to the engine in order.\<close>

lemma addAll_eq: "addAll cs pc = pc\<lparr>addedIceCandidates := addedIceCandidates pc @ cs\<rparr>"
  by (induction cs arbitrary: pc) (simp_all add: addIceCandidate_def)

lemma endCall_twice: "endCall (endCall s) = endCall s"
  by (simp add: endCall_def)

lemma endCall_released: "released (endCall s) = released s @ live_handles s"
  by (simp add: endCall_def live_handles_def)

lemma idle_endCall: "idle (endCall s)"
  by (simp add: endCall_def idle_def)

lemma endCall_idle: "idle s \<Longrightarrow> endCall s = s"
  by (simp add: endCall_def idle_def)

lemma deliver_ice_no_session:
  "peerConnection s = None \<Longrightarrow> \<forall>m\<in>set ms. is_ice_candidate m \<Longrightarrow>
     deliver ms s = s \<and> deliver_errors ms s = []"
proof (induction ms)
  case Nil
  then show ?case by simp
next
  case (Cons m ms)
  from Cons.prems obtain f t c where m: "m = IceCandidate f t c"
    by (cases m) simp_all
  with Cons.prems have "handleMessage m s = (None, s)"
    by (simp add: handleMessage_def)
  with Cons show ?case by simp
qed

section \<open>Teardown\<close>

text \<open>
  Claim C3, as amended. \<^verbatim>\<open>endCall\<close>, from any state, stops the tracks of the local (and
  remote) stream and closes the peer connection when they exist, detaches both video
  elements, hides the call overlay, and resets \<^verbatim>\<open>peerConnection\<close>, \<^verbatim>\<open>localStream\<close>,
  \<^verbatim>\<open>remoteStream\<close>, \<^verbatim>\<open>isCaller\<close> and \<^verbatim>\<open>currentPeer\<close> to their initial values. The pending
  offer is not part of what it resets: it is left as it was.
\<close>

theorem endCall_teardown:
  "peerConnection (endCall s) = None \<and> localStream (endCall s) = None
   \<and> remoteStream (endCall s) = None
   \<and> released (endCall s) = released s @ live_handles s
   \<and> isCaller (endCall s) = False \<and> currentPeer (endCall s) = None
   \<and> callOverlay_hidden (endCall s)
   \<and> localVideo_srcObject (endCall s) = None \<and> remoteVideo_srcObject (endCall s) = None
   \<and> idle (endCall s)
   \<and> pendingOffer (endCall s) = pendingOffer s"
  by (simp add: endCall_def live_handles_def idle_def)

theorem endCall_teardown_witness:
  "idle (endCall alice_busy)
   \<and> released (endCall alice_busy) = [TracksStopped 0, ConnectionClosed 1]
   \<and> pendingOffer (endCall alice_busy) = Some carol_offer"
  using endCall_teardown [of alice_busy]
  by (simp add: scenario_defs op_defs live_handles_def)

text \<open>
  Claim C3 as written fails: with an offer pending and a candidate queued, \<^verbatim>\<open>endCall\<close>
  leaves both in place.
\<close>

theorem endCall_keeps_pending_counterexample:
  "pendingOffer alice_busy = Some carol_offer
   \<and> pendingRemoteCandidates alice_busy = [Candidate 1]
   \<and> pendingOffer (endCall alice_busy) = Some carol_offer
   \<and> pendingRemoteCandidates (endCall alice_busy) = [Candidate 1]"
  by (simp add: scenario_defs op_defs)

text \<open>
  Claim C8. \<^verbatim>\<open>endCall\<close> is idempotent: a second call changes nothing, so the handles the
  first call released (one release per live handle) are not released again; the state it
  leaves is idle, and on an idle state it is the identity.
\<close>

theorem endCall_idempotent:
  "endCall (endCall s) = endCall s
   \<and> released (endCall s) = released s @ live_handles s
   \<and> released (endCall (endCall s)) = released s @ live_handles s
   \<and> idle (endCall s)
   \<and> (idle s \<longrightarrow> endCall s = s)"
  by (simp add: endCall_twice endCall_released idle_endCall endCall_idle)

theorem endCall_idempotent_witness:
  "released (endCall alice_busy) = [TracksStopped 0, ConnectionClosed 1]
   \<and> released (endCall (endCall alice_busy)) = [TracksStopped 0, ConnectionClosed 1]
   \<and> idle (endCall alice_busy) \<and> endCall (endCall alice_busy) = endCall alice_busy"
  using endCall_idempotent [of alice_busy]
  by (simp add: scenario_defs op_defs live_handles_def)

section \<open>Routing of inbound candidates\<close>

text \<open>
  Claim C9. An inbound \<^verbatim>\<open>ice_candidate\<close> message never raises. It reaches the session
  (applied to the engine when \<^verbatim>\<open>remoteDescriptionSet\<close> holds, appended to the queue
  otherwise) when it is addressed to the local participant and a peer connection exists;
  in every other case the state is unchanged. In particular any list of such messages
  arriving while no peer connection exists leaves the state unchanged and raises nothing.
\<close>

theorem ice_candidate_routing:
  "fst (handleMessage (IceCandidate f t c) s) = None
   \<and> (t \<noteq> currentUsername s \<or> peerConnection s = None
        \<longrightarrow> snd (handleMessage (IceCandidate f t c) s) = s)
   \<and> (t = currentUsername s \<and> peerConnection s = Some pc
        \<longrightarrow> snd (handleMessage (IceCandidate f t c) s) =
            (if remoteDescriptionSet s
             then s\<lparr>peerConnection := Some (pc\<lparr>addedIceCandidates := addedIceCandidates pc @ [c]\<rparr>)\<rparr>
             else s\<lparr>pendingRemoteCandidates := pendingRemoteCandidates s @ [c]\<rparr>))
   \<and> (peerConnection s = None \<and> (\<forall>m\<in>set ms. is_ice_candidate m)
        \<longrightarrow> deliver ms s = s \<and> deliver_errors ms s = [])"
  using deliver_ice_no_session [of s ms]
  by (auto simp add: handleMessage_def addIceCandidate_def split: option.splits)

theorem ice_candidate_routing_witness:
  "deliver [IceCandidate (Some ''bob'') (Some ''alice'') (Candidate 1),
            IceCandidate (Some ''bob'') (Some ''alice'') (Candidate 2),
            IceCandidate (Some ''bob'') (Some ''alice'') (Candidate 3)] alice_joined = alice_joined
   \<and> deliver_errors [IceCandidate (Some ''bob'') (Some ''alice'') (Candidate 1),
            IceCandidate (Some ''bob'') (Some ''alice'') (Candidate 2),
            IceCandidate (Some ''bob'') (Some ''alice'') (Candidate 3)] alice_joined = []
   \<and> pendingRemoteCandidates (snd (handleMessage (IceCandidate (Some ''bob'') (Some ''alice'') (Candidate 1)) alice_calling)) = [Candidate 1]
   \<and> snd (handleMessage (IceCandidate (Some ''bob'') (Some ''dave'') (Candidate 1)) alice_calling) = alice_calling"
proof -
  have a: "peerConnection alice_joined = None"
    by (simp add: scenario_defs op_defs)
  have b: "currentUsername alice_calling = Some ''alice''"
    "peerConnection alice_calling = Some \<lparr>pc_id = 1, tracks = [\<lparr>stream_id = 0, has_video = False\<rparr>],
          localDescription = Some LocalOfferSdp, remoteDescription = None,
          addedIceCandidates = []\<rparr>"
    "\<not> remoteDescriptionSet alice_calling" "pendingRemoteCandidates alice_calling = []"
    by (simp_all add: scenario_defs op_defs)
  have r1: "deliver [IceCandidate (Some ''bob'') (Some ''alice'') (Candidate 1),
            IceCandidate (Some ''bob'') (Some ''alice'') (Candidate 2),
            IceCandidate (Some ''bob'') (Some ''alice'') (Candidate 3)] alice_joined = alice_joined
   \<and> deliver_errors [IceCandidate (Some ''bob'') (Some ''alice'') (Candidate 1),
            IceCandidate (Some ''bob'') (Some ''alice'') (Candidate 2),
            IceCandidate (Some ''bob'') (Some ''alice'') (Candidate 3)] alice_joined = []"
    using ice_candidate_routing [where s = alice_joined and f = "Some ''bob''" and t = "Some ''alice''"
        and c = "Candidate 1" and ms = "[IceCandidate (Some ''bob'') (Some ''alice'') (Candidate 1),
            IceCandidate (Some ''bob'') (Some ''alice'') (Candidate 2),
            IceCandidate (Some ''bob'') (Some ''alice'') (Candidate 3)]"] a
    by (simp del: deliver.simps deliver_errors.simps)
  have r2: "pendingRemoteCandidates (snd (handleMessage (IceCandidate (Some ''bob'') (Some ''alice'') (Candidate 1)) alice_calling)) = [Candidate 1]"
    using ice_candidate_routing [where s = alice_calling and f = "Some ''bob''" and t = "Some ''alice''"
        and c = "Candidate 1" and ms = "[]" and pc = "\<lparr>pc_id = 1, tracks = [\<lparr>stream_id = 0, has_video = False\<rparr>],
          localDescription = Some LocalOfferSdp, remoteDescription = None,
          addedIceCandidates = []\<rparr>"] b
    by simp
  have r3: "snd (handleMessage (IceCandidate (Some ''bob'') (Some ''dave'') (Candidate 1)) alice_calling) = alice_calling"
    using ice_candidate_routing [where s = alice_calling and f = "Some ''bob''" and t = "Some ''dave''"
        and c = "Candidate 1" and ms = "[]"] b
    by simp
  from r1 r2 r3 show ?thesis by blast
qed

section \<open>The candidate queue\<close>


lemma handleCallAnswer_accepted:
  "peerConnection s = Some pc \<Longrightarrow> answer_accepted a \<Longrightarrow> answer_sdp a = Some d \<Longrightarrow>
   handleCallAnswer a s =
     (None, s\<lparr>peerConnection := Some (pc\<lparr>remoteDescription := Some d,
                   addedIceCandidates := addedIceCandidates pc @ pendingRemoteCandidates s\<rparr>),
              remoteDescriptionSet := True, pendingRemoteCandidates := []\<rparr>)"
  by (simp add: handleCallAnswer_def addAll_eq Let_def)

lemma startLocalStream_callee:
  "\<not> isCaller s \<Longrightarrow> startLocalStream ty True s =
     (None, s\<lparr>localStream := Some \<lparr>stream_id = fresh s, has_video = (ty = Video)\<rparr>,
              localVideo_srcObject := Some \<lparr>stream_id = fresh s, has_video = (ty = Video)\<rparr>,
              peerConnection := Some \<lparr>pc_id = Suc (fresh s),
                   tracks = [\<lparr>stream_id = fresh s, has_video = (ty = Video)\<rparr>],
                   localDescription = None, remoteDescription = None, addedIceCandidates = []\<rparr>,
              fresh := Suc (Suc (fresh s))\<rparr>)"
  by (simp add: startLocalStream_def createPeerConnection_def Let_def)

lemma answerCall_accept_flush:
  "pendingOffer s = Some offer \<Longrightarrow>
   map_option addedIceCandidates (peerConnection (snd (answerCall True True s))) = Some (pendingRemoteCandidates s)
   \<and> map_option remoteDescription (peerConnection (snd (answerCall True True s))) = Some (Some (offer_sdp offer))
   \<and> remoteDescriptionSet (snd (answerCall True True s))
   \<and> pendingRemoteCandidates (snd (answerCall True True s)) = []"
  by (simp add: answerCall_def startLocalStream_callee andThen_def addAll_eq Let_def send_def split: option.splits)



section \<open>The remote-description flag\<close>

lemma flag_step: "remoteDescriptionSet s \<Longrightarrow> remoteDescriptionSet (snd (step e s))"
  by (cases e) (auto simp add: op_defs split: option.splits message.splits if_splits)

lemma flag_run: "remoteDescriptionSet s \<Longrightarrow> remoteDescriptionSet (run es s)"
  by (induction es arbitrary: s) (simp_all add: flag_step)

lemma flag_set_by_description:
  "\<not> remoteDescriptionSet s \<Longrightarrow> remoteDescriptionSet (snd (step e s)) \<Longrightarrow>
     \<exists>pc. peerConnection (snd (step e s)) = Some pc \<and> remoteDescription pc \<noteq> None"
  by (cases e) (auto simp add: op_defs addAll_eq split: option.splits message.splits if_splits)

lemma ice_applied_directly:
  "remoteDescriptionSet s \<Longrightarrow> peerConnection s = Some pc \<Longrightarrow>
   handleMessage (IceCandidate f (currentUsername s) c) s =
     (None, s\<lparr>peerConnection := Some (pc\<lparr>addedIceCandidates := addedIceCandidates pc @ [c]\<rparr>)\<rparr>)"
  by (simp add: handleMessage_def addIceCandidate_def)

text \<open>
  Claim C10. \<^verbatim>\<open>remoteDescriptionSet\<close> is false after construction; once true it stays
  true under every event and every run, \<^verbatim>\<open>endCall\<close> included; a step turns it from false
  to true only by applying a remote description to the peer connection, and both
  \<^verbatim>\<open>handleCallAnswer\<close> on an accepted answer and \<^verbatim>\<open>answerCall\<close> on an accepted offer do
  turn it true. Hence, in whatever session exists after the flag was set, an inbound
  \<^verbatim>\<open>ice_candidate\<close> addressed to the local participant is handed to the engine at once
  and the queue is not touched.
\<close>

theorem remoteDescriptionSet_never_reset:
  "remoteDescriptionSet (ChatApp overlayHidden modalHidden) = False
   \<and> (remoteDescriptionSet s \<longrightarrow>
        remoteDescriptionSet (snd (step e s)) \<and> remoteDescriptionSet (run es s)
        \<and> remoteDescriptionSet (endCall s))
   \<and> (\<not> remoteDescriptionSet s \<and> remoteDescriptionSet (snd (step e s)) \<longrightarrow>
        (\<exists>pc'. peerConnection (snd (step e s)) = Some pc' \<and> remoteDescription pc' \<noteq> None))
   \<and> (peerConnection s = Some pc0 \<and> answer_accepted a \<and> answer_sdp a = Some d \<longrightarrow>
        remoteDescriptionSet (snd (handleCallAnswer a s)))
   \<and> (pendingOffer s = Some offer \<longrightarrow> remoteDescriptionSet (snd (answerCall True True s)))
   \<and> (remoteDescriptionSet s \<and> peerConnection (run es s) = Some pc \<longrightarrow>
        handleMessage (IceCandidate f (currentUsername (run es s)) c) (run es s) =
          (None, (run es s)\<lparr>peerConnection :=
                     Some (pc\<lparr>addedIceCandidates := addedIceCandidates pc @ [c]\<rparr>)\<rparr>)
        \<and> pendingRemoteCandidates (snd (handleMessage (IceCandidate f (currentUsername (run es s)) c) (run es s)))
            = pendingRemoteCandidates (run es s))"
proof -
  have 1: "remoteDescriptionSet (ChatApp overlayHidden modalHidden) = False"
    by (simp add: ChatApp_def)
  have 2: "remoteDescriptionSet (endCall s) = remoteDescriptionSet s"
    by (simp add: endCall_def)
  have 3: "remoteDescriptionSet (snd (handleCallAnswer a s))"
    if "peerConnection s = Some pc0" "answer_accepted a" "answer_sdp a = Some d"
    using handleCallAnswer_accepted [OF that] by simp
  have 4: "remoteDescriptionSet (snd (answerCall True True s))" if "pendingOffer s = Some offer"
    using answerCall_accept_flush [OF that] by simp
  have 5: "handleMessage (IceCandidate f (currentUsername (run es s)) c) (run es s) =
          (None, (run es s)\<lparr>peerConnection :=
                     Some (pc\<lparr>addedIceCandidates := addedIceCandidates pc @ [c]\<rparr>)\<rparr>)"
    if "remoteDescriptionSet s" "peerConnection (run es s) = Some pc"
    using ice_applied_directly [OF flag_run [OF that(1)] that(2)] .
  show ?thesis
    using 1 2 3 4 5 flag_step [of s e] flag_run [of s es] flag_set_by_description [of s e]
    by simp
qed

theorem remoteDescriptionSet_never_reset_witness:
  "remoteDescriptionSet alice_answered
   \<and> remoteDescriptionSet (run [ClickEndCall, ClickCall Video True] alice_answered)
   \<and> map_option remoteDescription (peerConnection (run [ClickEndCall, ClickCall Video True] alice_answered)) = Some None
   \<and> map_option addedIceCandidates (peerConnection (snd (handleMessage
        (IceCandidate (Some ''bob'') (Some ''alice'') (Candidate 5))
        (run [ClickEndCall, ClickCall Video True] alice_answered)))) = Some [Candidate 5]
   \<and> pendingRemoteCandidates (snd (handleMessage
        (IceCandidate (Some ''bob'') (Some ''alice'') (Candidate 5))
        (run [ClickEndCall, ClickCall Video True] alice_answered))) = []"
proof -
  have a: "remoteDescriptionSet alice_answered"
    by (simp add: scenario_defs op_defs)
  have b: "peerConnection (run [ClickEndCall, ClickCall Video True] alice_answered) =
      Some \<lparr>pc_id = 3, tracks = [\<lparr>stream_id = 2, has_video = True\<rparr>],
          localDescription = Some LocalOfferSdp, remoteDescription = None,
          addedIceCandidates = []\<rparr>"
    "currentUsername (run [ClickEndCall, ClickCall Video True] alice_answered) = Some ''alice''"
    "pendingRemoteCandidates (run [ClickEndCall, ClickCall Video True] alice_answered) = []"
    by (simp_all add: scenario_defs op_defs)
  show ?thesis
    using remoteDescriptionSet_never_reset [where s = alice_answered
        and es = "[ClickEndCall, ClickCall Video True]" and c = "Candidate 5" and f = "Some ''bob''"
        and pc = "\<lparr>pc_id = 3, tracks = [\<lparr>stream_id = 2, has_video = True\<rparr>],
          localDescription = Some LocalOfferSdp, remoteDescription = None,
          addedIceCandidates = []\<rparr>"] a b
    by (simp del: run.simps)
qed

section \<open>Routing of offers and answers\<close>

text \<open>
  Claim C4, as amended. An inbound \<^verbatim>\<open>call_offer\<close> never raises. When it is addressed
  to the local participant it is stored as the pending offer, replacing any earlier one,
  and the incoming-call modal is shown with the caller's name and the call type, whether
  or not a call session is active; when it is addressed to somebody else the state is
  unchanged. In both cases the session fields, the candidate queue, the
  remote-description flag and the outbound trace are unchanged.
\<close>

theorem call_offer_routing:
  "fst (handleMessage (CallOffer offer) s) = None
   \<and> (offer_to_user offer = currentUsername s \<longrightarrow>
        snd (handleMessage (CallOffer offer) s) =
          s\<lparr>pendingOffer := Some offer,
            callInfo := Some (offer_from_user offer, offer_call_type offer),
            incomingCallModal_hidden := False\<rparr>)
   \<and> (offer_to_user offer \<noteq> currentUsername s \<longrightarrow>
        snd (handleMessage (CallOffer offer) s) = s)
   \<and> session (snd (handleMessage (CallOffer offer) s)) = session s
   \<and> pendingRemoteCandidates (snd (handleMessage (CallOffer offer) s)) = pendingRemoteCandidates s
   \<and> remoteDescriptionSet (snd (handleMessage (CallOffer offer) s)) = remoteDescriptionSet s
   \<and> sent (snd (handleMessage (CallOffer offer) s)) = sent s"
  by (simp add: handleMessage_def showIncomingCall_def session_def)

theorem call_offer_routing_witness:
  "pendingOffer (snd (handleMessage (CallOffer carol_offer) alice_joined)) = Some carol_offer
   \<and> \<not> incomingCallModal_hidden (snd (handleMessage (CallOffer carol_offer) alice_joined))
   \<and> pendingOffer (snd (handleMessage (CallOffer carol_offer) alice_calling)) = Some carol_offer
   \<and> session (snd (handleMessage (CallOffer carol_offer) alice_calling)) = session alice_calling
   \<and> snd (handleMessage (CallOffer (carol_offer\<lparr>offer_to_user := Some ''dave''\<rparr>)) alice_calling) = alice_calling"
proof -
  have a: "currentUsername alice_joined = Some ''alice''" "currentUsername alice_calling = Some ''alice''"
    "offer_to_user carol_offer = Some ''alice''"
    by (simp_all add: scenario_defs op_defs)
  show ?thesis
    using call_offer_routing [of carol_offer alice_joined] call_offer_routing [of carol_offer alice_calling]
      call_offer_routing [of "carol_offer\<lparr>offer_to_user := Some ''dave''\<rparr>" alice_calling] a
    by (simp add: session_def)
qed

text \<open>
  Claim C4 as written fails: an offer that arrives while a call session is active is not
  ignored, it becomes the pending offer and the modal is shown.
\<close>

theorem call_offer_while_active_counterexample:
  "peerConnection alice_calling \<noteq> None
   \<and> pendingOffer alice_calling = None
   \<and> incomingCallModal_hidden alice_calling
   \<and> fst (handleMessage (CallOffer carol_offer) alice_calling) = None
   \<and> pendingOffer (snd (handleMessage (CallOffer carol_offer) alice_calling)) = Some carol_offer
   \<and> \<not> incomingCallModal_hidden (snd (handleMessage (CallOffer carol_offer) alice_calling))"
  by (simp add: scenario_defs op_defs)

text \<open>
  Claim C5, as amended. While a call session is active, an inbound \<^verbatim>\<open>call_answer\<close>
  addressed to the local participant is handed to \<^verbatim>\<open>handleCallAnswer\<close> whoever sent it,
  the sender is not compared with the current peer: a declining answer tears the session
  down through \<^verbatim>\<open>endCall\<close>, an accepting answer with a description applies it, sets the
  flag and flushes the queue; the result does not depend on the sender field. Nothing is
  said of an answer addressed to somebody else, or of one that arrives while no session
  is active.
\<close>

theorem call_answer_routing:
  assumes "peerConnection s = Some pc" and "answer_to_user a = currentUsername s"
  shows "(\<not> answer_accepted a \<longrightarrow> handleMessage (CallAnswer a) s = (None, endCall s))
   \<and> (answer_accepted a \<and> answer_sdp a = Some d \<longrightarrow>
        handleMessage (CallAnswer a) s =
          (None, s\<lparr>peerConnection := Some (pc\<lparr>remoteDescription := Some d,
                       addedIceCandidates := addedIceCandidates pc @ pendingRemoteCandidates s\<rparr>),
                   remoteDescriptionSet := True, pendingRemoteCandidates := []\<rparr>))
   \<and> handleMessage (CallAnswer (a\<lparr>answer_from_user := f\<rparr>)) s
        = handleMessage (CallAnswer a) s"
  using assms(1) handleCallAnswer_accepted [of s pc a d]
  by (simp add: handleMessage_def) (simp add: handleCallAnswer_def)

theorem call_answer_routing_witness:
  "handleMessage (CallAnswer mallory_declines) alice_calling = (None, endCall alice_calling)
   \<and> map_option remoteDescription (peerConnection (snd (handleMessage (CallAnswer bob_accepts) alice_busy)))
        = Some (Some (RemoteSdp 3))
   \<and> map_option addedIceCandidates (peerConnection (snd (handleMessage (CallAnswer bob_accepts) alice_busy)))
        = Some [Candidate 1]
   \<and> handleMessage (CallAnswer (bob_accepts\<lparr>answer_from_user := Some ''mallory''\<rparr>)) alice_busy
        = handleMessage (CallAnswer bob_accepts) alice_busy"
proof -
  have a: "peerConnection alice_calling = Some \<lparr>pc_id = 1, tracks = [\<lparr>stream_id = 0, has_video = False\<rparr>],
          localDescription = Some LocalOfferSdp, remoteDescription = None,
          addedIceCandidates = []\<rparr>"
    "answer_to_user mallory_declines = currentUsername alice_calling"
    by (simp_all add: scenario_defs op_defs)
  have b: "peerConnection alice_busy = Some \<lparr>pc_id = 1, tracks = [\<lparr>stream_id = 0, has_video = False\<rparr>],
          localDescription = Some LocalOfferSdp, remoteDescription = None,
          addedIceCandidates = []\<rparr>"
    "answer_to_user bob_accepts = currentUsername alice_busy"
    "pendingRemoteCandidates alice_busy = [Candidate 1]"
    by (simp_all add: scenario_defs op_defs)
  have c: "\<not> answer_accepted mallory_declines" "answer_accepted bob_accepts"
    "answer_sdp bob_accepts = Some (RemoteSdp 3)"
    by (simp_all add: scenario_defs)
  show ?thesis
    using call_answer_routing [OF a(1) a(2)]
      call_answer_routing [OF b(1) b(2), where d = "RemoteSdp 3" and f = "Some ''mallory''"] b(3) c
    by simp
qed

text \<open>
  Claim C5 as written fails: a declining answer addressed to the local participant whose
  sender is not the current peer ends the running session.
\<close>

theorem call_answer_unchecked_sender_counterexample:
  "peerConnection alice_calling \<noteq> None
   \<and> currentUsername alice_calling = Some ''alice''
   \<and> currentPeer alice_calling = Some ''bob''
   \<and> answer_to_user mallory_declines = Some ''alice''
   \<and> answer_from_user mallory_declines = Some ''mallory''
   \<and> fst (handleMessage (CallAnswer mallory_declines) alice_calling) = None
   \<and> peerConnection (snd (handleMessage (CallAnswer mallory_declines) alice_calling)) = None
   \<and> currentPeer (snd (handleMessage (CallAnswer mallory_declines) alice_calling)) = None
   \<and> released (snd (handleMessage (CallAnswer mallory_declines) alice_calling))
        = [TracksStopped 0, ConnectionClosed 1]"
  by (simp add: scenario_defs op_defs)

section \<open>Failure of media acquisition\<close>

text \<open>
  Claim C6, as amended. When \<^verbatim>\<open>getUserMedia\<close> rejects, \<^verbatim>\<open>startLocalStream\<close> fails with
  that rejection and changes nothing: no stream is stored, no peer connection is created,
  nothing is sent. The attempt is not rolled back: after \<^verbatim>\<open>initiateCall\<close> the chosen
  peer, the caller role and the visible overlay stay; after accepting an offer the offer
  is consumed, the peer is the offerer, the role is callee and the overlay is visible.
\<close>

theorem media_failure_not_rolled_back:
  "startLocalStream ty False s = (Some GetUserMediaRejected, s)
   \<and> (onlineUsers s = Some users \<and> find (\<lambda>u. Some u \<noteq> currentUsername s) users = Some p \<and> p \<noteq> [] \<longrightarrow>
        initiateCall ty False s =
          (Some GetUserMediaRejected,
           s\<lparr>currentPeer := Some p, isCaller := True, callOverlay_hidden := False\<rparr>))
   \<and> (pendingOffer s = Some offer \<longrightarrow>
        answerCall True False s =
          (Some GetUserMediaRejected,
           s\<lparr>incomingCallModal_hidden := True, pendingOffer := None,
             currentPeer := offer_from_user offer, isCaller := False,
             callOverlay_hidden := False\<rparr>))"
  by (simp add: startLocalStream_def initiateCall_def answerCall_def andThen_def truthy_def Let_def)

theorem media_failure_not_rolled_back_witness:
  "initiateCall Audio False alice_joined =
     (Some GetUserMediaRejected,
      alice_joined\<lparr>currentPeer := Some ''bob'', isCaller := True, callOverlay_hidden := False\<rparr>)
   \<and> answerCall True False alice_ringing =
     (Some GetUserMediaRejected,
      alice_ringing\<lparr>incomingCallModal_hidden := True, pendingOffer := None,
             currentPeer := Some ''carol'', isCaller := False, callOverlay_hidden := False\<rparr>)"
proof -
  have a: "onlineUsers alice_joined = Some [''alice'', ''bob'', ''carol'']"
    "find (\<lambda>u. Some u \<noteq> currentUsername alice_joined) [''alice'', ''bob'', ''carol''] = Some ''bob''"
    "pendingOffer alice_ringing = Some carol_offer" "offer_from_user carol_offer = Some ''carol''"
    by (simp_all add: scenario_defs op_defs)
  show ?thesis
    using media_failure_not_rolled_back [of Audio alice_joined "[''alice'', ''bob'', ''carol'']" "''bob''"]
      media_failure_not_rolled_back [of Audio alice_ringing _ _ carol_offer] a
    by simp
qed

text \<open>
  Claim C6 as written fails: from an idle state, a call attempt whose media acquisition
  is rejected does not end in an idle state, on either path.
\<close>

theorem media_failure_not_idle_counterexample:
  "idle alice_joined
   \<and> fst (initiateCall Audio False alice_joined) = Some GetUserMediaRejected
   \<and> \<not> idle (snd (initiateCall Audio False alice_joined))
   \<and> isCaller (snd (initiateCall Audio False alice_joined))
   \<and> currentPeer (snd (initiateCall Audio False alice_joined)) = Some ''bob''
   \<and> idle alice_ringing
   \<and> fst (answerCall True False alice_ringing) = Some GetUserMediaRejected
   \<and> \<not> idle (snd (answerCall True False alice_ringing))
   \<and> currentPeer (snd (answerCall True False alice_ringing)) = Some ''carol''"
  by (simp add: scenario_defs op_defs idle_def)

section \<open>Roles and outbound messages\<close>



text \<open>
  The cuts are cuts of the handlers: run without an event in between, the two parts of
  each handler make up the handler.
\<close>

lemma answerCall_split:
  "answerCall True granted s = (case answerCall_begin s of
       (s1, None) \<Rightarrow> (None, s1)
     | (s1, Some offer) \<Rightarrow> answerCall_resume offer granted s1)"
  by (simp add: answerCall_def answerCall_begin_def answerCall_resume_def Let_def
      split: option.splits)

lemma initiateCall_split:
  "initiateCall ty granted s = (case initiateCall_begin s of
       ((None, s1), True) \<Rightarrow> startLocalStream ty granted s1
     | (r, suspended) \<Rightarrow> r)"
  by (simp add: initiateCall_def initiateCall_begin_def Let_def split: option.splits)




section \<open>Starting a call while one is active\<close>

lemma startLocalStream_caller:
  "isCaller s \<Longrightarrow> ws s = Some sock \<Longrightarrow> startLocalStream ty True s =
     (None, s\<lparr>localStream := Some \<lparr>stream_id = fresh s, has_video = (ty = Video)\<rparr>,
              localVideo_srcObject := Some \<lparr>stream_id = fresh s, has_video = (ty = Video)\<rparr>,
              peerConnection := Some \<lparr>pc_id = Suc (fresh s),
                   tracks = [\<lparr>stream_id = fresh s, has_video = (ty = Video)\<rparr>],
                   localDescription = Some LocalOfferSdp, remoteDescription = None,
                   addedIceCandidates = []\<rparr>,
              fresh := Suc (Suc (fresh s)),
              sent := sent s @ [(True, CallOffer \<lparr> offer_from_user = currentUsername s,
                          offer_to_user = currentPeer s, offer_call_type = ty,
                          offer_sdp = LocalOfferSdp \<rparr>)]\<rparr>)"
  by (simp add: startLocalStream_def createPeerConnection_def send_def Let_def)

lemma initiateCall_replaces:
  assumes "onlineUsers s = Some users"
    and "find (\<lambda>u. Some u \<noteq> currentUsername s) users = Some p" and "p \<noteq> []"
    and "ws s = Some sock"
  shows "initiateCall ty True s =
     (None, s\<lparr>currentPeer := Some p, isCaller := True, callOverlay_hidden := False,
              localStream := Some \<lparr>stream_id = fresh s, has_video = (ty = Video)\<rparr>,
              localVideo_srcObject := Some \<lparr>stream_id = fresh s, has_video = (ty = Video)\<rparr>,
              peerConnection := Some \<lparr>pc_id = Suc (fresh s),
                   tracks = [\<lparr>stream_id = fresh s, has_video = (ty = Video)\<rparr>],
                   localDescription = Some LocalOfferSdp, remoteDescription = None,
                   addedIceCandidates = []\<rparr>,
              fresh := Suc (Suc (fresh s)),
              sent := sent s @ [(True, CallOffer \<lparr> offer_from_user = currentUsername s,
                          offer_to_user = Some p, offer_call_type = ty,
                          offer_sdp = LocalOfferSdp \<rparr>)]\<rparr>)"
  using assms by (simp add: initiateCall_def truthy_def Let_def startLocalStream_caller)

lemma answerCall_replaces:
  assumes "pendingOffer s = Some offer" and "ws s = Some sock"
  shows "answerCall True True s =
     (None, s\<lparr>incomingCallModal_hidden := True, pendingOffer := None,
              currentPeer := offer_from_user offer, isCaller := False,
              callOverlay_hidden := False,
              localStream := Some \<lparr>stream_id = fresh s, has_video = (offer_call_type offer = Video)\<rparr>,
              localVideo_srcObject := Some \<lparr>stream_id = fresh s, has_video = (offer_call_type offer = Video)\<rparr>,
              fresh := Suc (Suc (fresh s)),
              remoteDescriptionSet := True,
              peerConnection := Some \<lparr>pc_id = Suc (fresh s),
                   tracks = [\<lparr>stream_id = fresh s, has_video = (offer_call_type offer = Video)\<rparr>],
                   localDescription = Some LocalAnswerSdp,
                   remoteDescription = Some (offer_sdp offer),
                   addedIceCandidates = pendingRemoteCandidates s\<rparr>,
              pendingRemoteCandidates := [],
              sent := sent s @ [(False, CallAnswer \<lparr> answer_from_user = currentUsername s,
                          answer_to_user = offer_from_user offer, answer_accepted = True,
                          answer_sdp = Some LocalAnswerSdp \<rparr>)]\<rparr>)"
  using assms
  by (simp add: answerCall_def startLocalStream_callee andThen_def addAll_eq Let_def send_def)

lemma initiateCall_nobody:
  assumes "onlineUsers s = Some users"
    and "\<not> truthy (find (\<lambda>u. Some u \<noteq> currentUsername s) users)"
  shows "initiateCall ty granted s =
     (None, s\<lparr>currentPeer := find (\<lambda>u. Some u \<noteq> currentUsername s) users,
              alerts := alerts s @ [''No one to call.'']\<rparr>)"
  using assms by (simp add: initiateCall_def Let_def)

lemma answerCall_no_offer:
  "pendingOffer s = None \<Longrightarrow>
     answerCall accepted granted s = (None, s\<lparr>incomingCallModal_hidden := True, pendingOffer := None\<rparr>)"
  by (simp add: answerCall_def Let_def)

lemma answerCall_decline_session:
  "session (snd (answerCall False granted s)) = session s"
  by (simp add: answerCall_def Let_def send_def session_def split: option.splits)

text \<open>
  Claim C1, as amended. Neither \<^verbatim>\<open>initiateCall\<close> nor \<^verbatim>\<open>answerCall\<close> looks at the
  running session. With another user in the roster, media granted and a socket,
  \<^verbatim>\<open>initiateCall\<close> always succeeds and installs a new stream and a new peer connection,
  the first other roster user as peer and the caller role; accepting a pending offer
  likewise installs a new session with the offerer as peer and the callee role. The
  existing session fields survive only where no new session is started: when no offer is
  pending, when the offer is declined, and (the peer apart, which is overwritten) when
  the roster holds nobody else.
\<close>

theorem no_single_session_guard:
  "(onlineUsers s = Some users \<and> find (\<lambda>u. Some u \<noteq> currentUsername s) users = Some p
      \<and> p \<noteq> [] \<and> ws s = Some sock \<longrightarrow>
     initiateCall ty True s =
     (None, s\<lparr>currentPeer := Some p, isCaller := True, callOverlay_hidden := False,
              localStream := Some \<lparr>stream_id = fresh s, has_video = (ty = Video)\<rparr>,
              localVideo_srcObject := Some \<lparr>stream_id = fresh s, has_video = (ty = Video)\<rparr>,
              peerConnection := Some \<lparr>pc_id = Suc (fresh s),
                   tracks = [\<lparr>stream_id = fresh s, has_video = (ty = Video)\<rparr>],
                   localDescription = Some LocalOfferSdp, remoteDescription = None,
                   addedIceCandidates = []\<rparr>,
              fresh := Suc (Suc (fresh s)),
              sent := sent s @ [(True, CallOffer \<lparr> offer_from_user = currentUsername s,
                          offer_to_user = Some p, offer_call_type = ty,
                          offer_sdp = LocalOfferSdp \<rparr>)]\<rparr>))
   \<and> (pendingOffer s = Some offer \<and> ws s = Some sock \<longrightarrow>
     answerCall True True s =
     (None, s\<lparr>incomingCallModal_hidden := True, pendingOffer := None,
              currentPeer := offer_from_user offer, isCaller := False,
              callOverlay_hidden := False,
              localStream := Some \<lparr>stream_id = fresh s, has_video = (offer_call_type offer = Video)\<rparr>,
              localVideo_srcObject := Some \<lparr>stream_id = fresh s, has_video = (offer_call_type offer = Video)\<rparr>,
              fresh := Suc (Suc (fresh s)),
              remoteDescriptionSet := True,
              peerConnection := Some \<lparr>pc_id = Suc (fresh s),
                   tracks = [\<lparr>stream_id = fresh s, has_video = (offer_call_type offer = Video)\<rparr>],
                   localDescription = Some LocalAnswerSdp,
                   remoteDescription = Some (offer_sdp offer),
                   addedIceCandidates = pendingRemoteCandidates s\<rparr>,
              pendingRemoteCandidates := [],
              sent := sent s @ [(False, CallAnswer \<lparr> answer_from_user = currentUsername s,
                          answer_to_user = offer_from_user offer, answer_accepted = True,
                          answer_sdp = Some LocalAnswerSdp \<rparr>)]\<rparr>))
   \<and> (onlineUsers s = Some users \<and> \<not> truthy (find (\<lambda>u. Some u \<noteq> currentUsername s) users) \<longrightarrow>
     initiateCall ty granted s =
     (None, s\<lparr>currentPeer := find (\<lambda>u. Some u \<noteq> currentUsername s) users,
              alerts := alerts s @ [''No one to call.'']\<rparr>))
   \<and> (pendingOffer s = None \<longrightarrow>
     answerCall accepted granted s =
       (None, s\<lparr>incomingCallModal_hidden := True, pendingOffer := None\<rparr>))
   \<and> session (snd (answerCall False granted s)) = session s"
  using initiateCall_replaces [of s users p sock ty] answerCall_replaces [of s offer sock]
    initiateCall_nobody [of s users ty granted] answerCall_no_offer [of s accepted granted]
    answerCall_decline_session [of granted s]
  by blast

theorem no_single_session_guard_witness:
  "map_option pc_id (peerConnection alice_calling) = Some 1
   \<and> fst (initiateCall Video True alice_calling) = None
   \<and> map_option pc_id (peerConnection (snd (initiateCall Video True alice_calling))) = Some 3
   \<and> map_option pc_id (peerConnection alice_busy) = Some 1
   \<and> fst (answerCall True True alice_busy) = None
   \<and> map_option pc_id (peerConnection (snd (answerCall True True alice_busy))) = Some 3
   \<and> currentPeer (snd (answerCall True True alice_busy)) = Some ''carol''
   \<and> isCaller (snd (answerCall True True alice_busy)) = False
   \<and> session (snd (answerCall False True alice_busy)) = session alice_busy
   \<and> session (snd (answerCall True True alice_calling)) = session alice_calling
   \<and> session (snd (initiateCall Video True (alice_calling\<lparr>onlineUsers := Some [''alice'']\<rparr>)))
       = (peerConnection alice_calling, None, True, localStream alice_calling)"
proof -
  have a: "onlineUsers alice_calling = Some [''alice'', ''bob'', ''carol'']"
    "find (\<lambda>u. Some u \<noteq> currentUsername alice_calling) [''alice'', ''bob'', ''carol''] = Some ''bob''"
    "ws alice_calling = Some (WebSocket ''lobby'' ''alice'')" "fresh alice_calling = 2"
    "map_option pc_id (peerConnection alice_calling) = Some 1"
    "pendingOffer alice_calling = None" "isCaller alice_calling"
    "currentUsername alice_calling = Some ''alice''"
    by (simp_all add: scenario_defs op_defs)
  have b: "pendingOffer alice_busy = Some carol_offer"
    "ws alice_busy = Some (WebSocket ''lobby'' ''alice'')" "fresh alice_busy = 2"
    "map_option pc_id (peerConnection alice_busy) = Some 1"
    "offer_from_user carol_offer = Some ''carol''"
    by (simp_all add: scenario_defs op_defs)
  have r1: "fst (initiateCall Video True alice_calling) = None
      \<and> map_option pc_id (peerConnection (snd (initiateCall Video True alice_calling))) = Some 3"
    using no_single_session_guard [where s = alice_calling and users = "[''alice'', ''bob'', ''carol'']"
        and p = "''bob''" and sock = "WebSocket ''lobby'' ''alice''" and ty = Video] a
    by simp
  have r2: "fst (answerCall True True alice_busy) = None
      \<and> map_option pc_id (peerConnection (snd (answerCall True True alice_busy))) = Some 3
      \<and> currentPeer (snd (answerCall True True alice_busy)) = Some ''carol''
      \<and> isCaller (snd (answerCall True True alice_busy)) = False"
    using no_single_session_guard [where s = alice_busy and offer = carol_offer
        and sock = "WebSocket ''lobby'' ''alice''"] b
    by simp
  have r3: "session (snd (answerCall False True alice_busy)) = session alice_busy"
    using no_single_session_guard [where s = alice_busy and granted = True] by blast
  have r4: "session (snd (answerCall True True alice_calling)) = session alice_calling"
    using no_single_session_guard [where s = alice_calling and accepted = True and granted = True] a
    by (simp add: session_def)
  have r5: "session (snd (initiateCall Video True (alice_calling\<lparr>onlineUsers := Some [''alice'']\<rparr>)))
       = (peerConnection alice_calling, None, True, localStream alice_calling)"
    using no_single_session_guard [where s = "alice_calling\<lparr>onlineUsers := Some [''alice'']\<rparr>"
        and users = "[''alice'']" and ty = Video and granted = True] a
    by (simp add: session_def truthy_def)
  from a(5) b(4) r1 r2 r3 r4 r5 show ?thesis by blast
qed

text \<open>
  Claim C1 as written fails: with a session active, a second \<^verbatim>\<open>initiateCall\<close> and the
  acceptance of a pending offer both succeed and replace the session fields.
\<close>

theorem second_call_replaces_session_counterexample:
  "peerConnection alice_calling \<noteq> None
   \<and> fst (initiateCall Video True alice_calling) = None
   \<and> peerConnection (snd (initiateCall Video True alice_calling)) \<noteq> peerConnection alice_calling
   \<and> localStream (snd (initiateCall Video True alice_calling)) \<noteq> localStream alice_calling
   \<and> peerConnection alice_busy \<noteq> None
   \<and> pendingOffer alice_busy = Some carol_offer
   \<and> fst (answerCall True True alice_busy) = None
   \<and> peerConnection (snd (answerCall True True alice_busy)) \<noteq> peerConnection alice_busy
   \<and> localStream (snd (answerCall True True alice_busy)) \<noteq> localStream alice_busy
   \<and> currentPeer alice_busy = Some ''bob''
   \<and> currentPeer (snd (answerCall True True alice_busy)) = Some ''carol''
   \<and> isCaller alice_busy
   \<and> \<not> isCaller (snd (answerCall True True alice_busy))"
  by (simp add: scenario_defs op_defs addAll_eq)

end
